theory Spec2Isabelle
  imports Complex_Main "HOL-Library.AList" "HOL-Library.Multiset"
begin

section \<open>Data model of \<open>diagrama.py\<close>\<close>

text \<open>
  The three classes \<open>Produto\<close>, \<open>Venda\<close> and \<open>Estoque\<close> become records. A Python
  \<open>dict\<close> keeps its keys in insertion order, and that order is visible in the listings,
  so every dict is an association list: \<open>map_of\<close> reads a key, \<open>AList.update\<close> stores
  a value (in place for a known key, at the end for a new one) and \<open>AList.delete\<close> is
  \<open>del\<close>. Quantities and identifiers are Python integers (\<open>int\<close>). A \<open>datetime\<close> is
  the number of microseconds since \<open>datetime.min\<close>.

  Prices and totals are Python floats. Their type is the type variable \<open>'f\<close>: no
  property of float arithmetic is assumed. The two float operations of the program, the
  product of a price by a quantity and the \<open>sum\<close> of the products, are the fields of an
  \<open>aritmetica\<close> that the functions take as an argument, so every theorem holds for
  the arithmetic of the interpreter, whatever it rounds to. The number \<open>0\<close> of \<open>'f\<close>
  stands for both \<open>0\<close> and \<open>0.0\<close>.
\<close>

record 'f produto =
  produto_id :: int
  nome :: string
  tamanho :: string
  cor :: string
  quantidade :: int
  preco :: 'f
  limite_minimo :: int

record 'f venda =
  venda_id :: int
  produtos_venda :: "(int \<times> int) list"
  data :: int
  valor_total :: 'f

record 'f estoque =
  produtos :: "(int \<times> 'f produto) list"
  vendas :: "'f venda list"
  ultimo_id_produto :: int
  ultimo_id_venda :: int

text \<open>
  The exceptions of the program: \<open>d[k]\<close> on a missing key raises \<open>KeyError\<close>, and
  the product of a float by an integer too large to be converted to a float raises
  \<open>OverflowError\<close>.
\<close>

datatype excecao = KeyError int | OverflowError

definition getitem :: "(int \<times> 'v) list \<Rightarrow> int \<Rightarrow> excecao + 'v" where
  "getitem d k = (case map_of d k of None \<Rightarrow> Inl (KeyError k) | Some v \<Rightarrow> Inr v)"

text \<open>\<open>k in d\<close>.\<close>

definition contem :: "(int \<times> 'v) list \<Rightarrow> int \<Rightarrow> bool" where
  "contem d k = (map_of d k \<noteq> None)"

subsection \<open>Float arithmetic\<close>

text \<open>
  \<open>multiplicar ar p q\<close> is the float \<open>p * q\<close> for a float \<open>p\<close> and an integer \<open>q\<close>
  that can be converted to a float; \<open>somar ar xs\<close> is \<open>sum\<close> of a non-empty sequence
  of floats.
\<close>

record 'f aritmetica =
  multiplicar :: "'f \<Rightarrow> int \<Rightarrow> 'f"
  somar :: "'f list \<Rightarrow> 'f"

text \<open>
  The conversion of an integer to a float rounds to the nearest float, ties to even;
  it raises \<open>OverflowError\<close> from the midpoint between the largest float,
  \<open>2 ^ 1024 - 2 ^ 971\<close>, and \<open>2 ^ 1024\<close> on.
\<close>

definition limite_float :: int where
  "limite_float = 2 ^ 1024 - 2 ^ 970"

text \<open>
  \<open>preco * quantidade\<close>: the integer is converted first, whatever the float is.
\<close>

definition vezes :: "'f aritmetica \<Rightarrow> 'f \<Rightarrow> int \<Rightarrow> excecao + 'f" where
  "vezes ar p q =
     (if limite_float \<le> \<bar>q\<bar> then Inl OverflowError else Inr (multiplicar ar p q))"

text \<open>\<open>sum\<close> starts from \<open>0\<close>, which is its result for no items.\<close>

definition sum_py :: "'f::zero aritmetica \<Rightarrow> 'f list \<Rightarrow> 'f" where
  "sum_py ar xs = (if xs = [] then 0 else somar ar xs)"

text \<open>
  What \<open>registrar_venda\<close> prints: one constructor per \<open>print\<close> of the method, carrying
  the values its format string shows.
\<close>

datatype mensagem =
    ErroNaoExiste int
  | ErroApenasUnidades string int
  | AlertaEstoqueBaixo string int

section \<open>Produto\<close>

definition atualizar_quantidade :: "'f produto \<Rightarrow> int \<Rightarrow> 'f produto" where
  "atualizar_quantidade p q = p\<lparr>quantidade := quantidade p + q\<rparr>"

definition verificar_estoque_baixo :: "'f produto \<Rightarrow> bool" where
  "verificar_estoque_baixo p = (quantidade p < limite_minimo p)"

section \<open>Venda\<close>

text \<open>
  \<open>Venda.__init__\<close>: the date is the one given, or the clock's reading \<open>agora\<close>
  (a \<open>datetime\<close> is never falsy); the total starts at \<open>0.0\<close>.
\<close>

definition Venda_init ::
  "int \<Rightarrow> (int \<times> int) list \<Rightarrow> int option \<Rightarrow> int \<Rightarrow> 'f::zero venda" where
  "Venda_init i ps d agora =
     \<lparr>venda_id = i, produtos_venda = ps,
      data = (case d of Some t \<Rightarrow> t | None \<Rightarrow> agora), valor_total = 0\<rparr>"

text \<open>
  The generator of \<open>calcular_valor_total\<close>, in the order of the sale's items:
  \<open>produtos[id_produto]\<close> raises on a missing key and the product raises on a
  quantity that is too large; the first exception ends the sum.
\<close>

fun subtotais ::
  "'f aritmetica \<Rightarrow> (int \<times> 'f produto) list \<Rightarrow> (int \<times> int) list \<Rightarrow> excecao + 'f list" where
  "subtotais ar ps [] = Inr []"
| "subtotais ar ps ((i, q) # xs) =
     (case getitem ps i of
        Inl x \<Rightarrow> Inl x
      | Inr p \<Rightarrow>
          (case vezes ar (preco p) q of
             Inl x \<Rightarrow> Inl x
           | Inr s \<Rightarrow>
               (case subtotais ar ps xs of
                  Inl x \<Rightarrow> Inl x
                | Inr ss \<Rightarrow> Inr (s # ss))))"

definition calcular_valor_total ::
  "'f::zero aritmetica \<Rightarrow> 'f venda \<Rightarrow> (int \<times> 'f produto) list \<Rightarrow> excecao + 'f venda" where
  "calcular_valor_total ar v ps =
     (case subtotais ar ps (produtos_venda v) of
        Inl x \<Rightarrow> Inl x
      | Inr ss \<Rightarrow> Inr (v\<lparr>valor_total := sum_py ar ss\<rparr>))"

section \<open>Estoque\<close>

definition Estoque_init :: "'f estoque" where
  "Estoque_init = \<lparr>produtos = [], vendas = [], ultimo_id_produto = 0, ultimo_id_venda = 0\<rparr>"

definition adicionar_produto ::
  "'f estoque \<Rightarrow> string \<Rightarrow> string \<Rightarrow> string \<Rightarrow> int \<Rightarrow> 'f \<Rightarrow> int \<Rightarrow>
   'f produto \<times> 'f estoque" where
  "adicionar_produto e n t c q pr lm =
     (let i = ultimo_id_produto e + 1;
          p = \<lparr>produto_id = i, nome = n, tamanho = t, cor = c,
               quantidade = q, preco = pr, limite_minimo = lm\<rparr>
      in (p, e\<lparr>ultimo_id_produto := i, produtos := AList.update i p (produtos e)\<rparr>))"

text \<open>
  \<open>atualizar_produto\<close>: an identifier that is not a key returns \<open>None\<close>; the
  product found is changed in place. \<open>if nome:\<close> is false for \<open>None\<close> and for the empty string;
  \<open>if quantidade is not None:\<close> is true for every number, zero too.
\<close>

definition atualizar_produto ::
  "'f estoque \<Rightarrow> int \<Rightarrow> string option \<Rightarrow> string option \<Rightarrow> string option \<Rightarrow>
   int option \<Rightarrow> 'f option \<Rightarrow> int option \<Rightarrow> 'f produto option \<times> 'f estoque" where
  "atualizar_produto e i n t c q pr lm =
     (case map_of (produtos e) i of
        None \<Rightarrow> (None, e)
      | Some p0 \<Rightarrow>
          (let p1 = (case n of Some s \<Rightarrow> if s \<noteq> [] then p0\<lparr>nome := s\<rparr> else p0 | None \<Rightarrow> p0);
               p2 = (case t of Some s \<Rightarrow> if s \<noteq> [] then p1\<lparr>tamanho := s\<rparr> else p1 | None \<Rightarrow> p1);
               p3 = (case c of Some s \<Rightarrow> if s \<noteq> [] then p2\<lparr>cor := s\<rparr> else p2 | None \<Rightarrow> p2);
               p4 = (case q of Some x \<Rightarrow> p3\<lparr>quantidade := x\<rparr> | None \<Rightarrow> p3);
               p5 = (case pr of Some x \<Rightarrow> p4\<lparr>preco := x\<rparr> | None \<Rightarrow> p4);
               p6 = (case lm of Some x \<Rightarrow> p5\<lparr>limite_minimo := x\<rparr> | None \<Rightarrow> p5)
           in (Some p6, e\<lparr>produtos := AList.update i p6 (produtos e)\<rparr>)))"

definition remover_produto :: "'f estoque \<Rightarrow> int \<Rightarrow> bool \<times> 'f estoque" where
  "remover_produto e i =
     (if contem (produtos e) i
      then (True, e\<lparr>produtos := AList.delete i (produtos e)\<rparr>)
      else (False, e))"

text \<open>
  The first loop of \<open>registrar_venda\<close>: it returns the message of the first item that
  fails (its identifier is not a key, or the product found has less than the amount
  asked), or \<open>None\<close> when every item passes.
\<close>

fun verificar :: "(int \<times> 'f produto) list \<Rightarrow> (int \<times> int) list \<Rightarrow> mensagem option" where
  "verificar ps [] = None"
| "verificar ps ((i, q) # xs) =
     (case map_of ps i of
        None \<Rightarrow> Some (ErroNaoExiste i)
      | Some p \<Rightarrow>
          if quantidade p < q then Some (ErroApenasUnidades (nome p) (quantidade p))
          else verificar ps xs)"

text \<open>
  The second loop: each product's quantity goes down by the amount sold, and a
  low-stock alert is printed where the check holds afterwards. The result is the
  exception that ended the loop, if any, the product map as the loop left it and what
  it printed.
\<close>

fun baixar ::
  "(int \<times> 'f produto) list \<Rightarrow> (int \<times> int) list \<Rightarrow>
   excecao option \<times> (int \<times> 'f produto) list \<times> mensagem list" where
  "baixar ps [] = (None, ps, [])"
| "baixar ps ((i, q) # xs) =
     (case getitem ps i of
        Inl x \<Rightarrow> (Some x, ps, [])
      | Inr p \<Rightarrow>
          (let p' = atualizar_quantidade p (- q);
               ps' = AList.update i p' ps;
               alerta = (if verificar_estoque_baixo p'
                         then [AlertaEstoqueBaixo (nome p') (quantidade p')] else [])
           in case baixar ps' xs of
                (r, ps'', out) \<Rightarrow> (r, ps'', alerta @ out)))"

text \<open>
  \<open>registrar_venda\<close> gives how the call ended (the exception raised, or the value
  returned: the sale or \<open>None\<close>), the ledger as the call left it and what was
  printed; \<open>agora\<close> is the reading of the clock. An exception leaves the ledger with
  the assignments made before it: the total is computed after the stock and the sale
  counter have been changed and before the sale is stored.
\<close>

definition registrar_venda ::
  "'f::zero aritmetica \<Rightarrow> 'f estoque \<Rightarrow> (int \<times> int) list \<Rightarrow> int \<Rightarrow>
   (excecao + 'f venda option) \<times> 'f estoque \<times> mensagem list" where
  "registrar_venda ar e produtos_vendidos agora =
     (case verificar (produtos e) produtos_vendidos of
        Some m \<Rightarrow> (Inr None, e, [m])
      | None \<Rightarrow>
          (case baixar (produtos e) produtos_vendidos of
             (Some x, ps', out) \<Rightarrow> (Inl x, e\<lparr>produtos := ps'\<rparr>, out)
           | (None, ps', out) \<Rightarrow>
               (let i = ultimo_id_venda e + 1;
                    e1 = e\<lparr>produtos := ps', ultimo_id_venda := i\<rparr>;
                    v = Venda_init i produtos_vendidos None agora
                in case calcular_valor_total ar v ps' of
                     Inl x \<Rightarrow> (Inl x, e1, out)
                   | Inr v' \<Rightarrow> (Inr (Some v'), e1\<lparr>vendas := vendas e @ [v']\<rparr>, out))))"

definition listar_produtos :: "'f estoque \<Rightarrow> 'f produto list" where
  "listar_produtos e = map snd (produtos e)"

definition listar_produtos_estoque_baixo :: "'f estoque \<Rightarrow> 'f produto list" where
  "listar_produtos_estoque_baixo e = filter verificar_estoque_baixo (map snd (produtos e))"

text \<open>
  \<open>Interface.listar_produtos_estoque_baixo\<close> prints the ledger's low-stock list sorted
  by quantity (\<open>sorted\<close> with \<open>key=lambda p: p.quantidade\<close>, a stable sort); the result
  is the products in the order they are printed.
\<close>

definition interface_listar_produtos_estoque_baixo :: "'f estoque \<Rightarrow> 'f produto list" where
  "interface_listar_produtos_estoque_baixo e =
     sort_key quantidade (listar_produtos_estoque_baixo e)"

subsection \<open>Sales report\<close>

text \<open>
  The report is a text built line by line; each line is one constructor, carrying
  the values its format string shows. \<open>Periodo\<close> holds a bound only where the
  source prints a date (\<open>None\<close> stands for the words printed at \<open>datetime.min\<close> and
  \<open>datetime.max\<close>).
\<close>

datatype 'f linha =
    Titulo
  | Periodo "int option" "int option"
  | TotalDeVendas nat
  | ValorTotal 'f
  | CabecalhoVenda int int 'f
  | ProdutosVendidos
  | ItemVendido int string string string 'f
  | ItemNaoEncontrado int int
  | LinhaEmBranco

definition datetime_min :: int where
  "datetime_min = 0"

definition datetime_max :: int where
  "datetime_max = 315537897599999999"

fun linhas_itens ::
  "(int \<times> 'f produto) list \<Rightarrow> (int \<times> int) list \<Rightarrow> excecao + 'f linha list" where
  "linhas_itens ps [] = Inr []"
| "linhas_itens ps ((i, q) # xs) =
     (case (if contem ps i
            then (case getitem ps i of
                    Inl x \<Rightarrow> Inl x
                  | Inr p \<Rightarrow> Inr (ItemVendido q (nome p) (tamanho p) (cor p) (preco p)))
            else Inr (ItemNaoEncontrado q i)) of
        Inl x \<Rightarrow> Inl x
      | Inr l \<Rightarrow>
          (case linhas_itens ps xs of
             Inl x \<Rightarrow> Inl x
           | Inr ls \<Rightarrow> Inr (l # ls)))"

fun linhas_vendas ::
  "(int \<times> 'f produto) list \<Rightarrow> 'f venda list \<Rightarrow> excecao + 'f linha list" where
  "linhas_vendas ps [] = Inr []"
| "linhas_vendas ps (v # vs) =
     (case linhas_itens ps (produtos_venda v) of
        Inl x \<Rightarrow> Inl x
      | Inr ls \<Rightarrow>
          (case linhas_vendas ps vs of
             Inl x \<Rightarrow> Inl x
           | Inr r \<Rightarrow>
               Inr ([CabecalhoVenda (venda_id v) (data v) (valor_total v), ProdutosVendidos]
                    @ ls @ [LinhaEmBranco] @ r)))"

definition gerar_relatorio_vendas ::
  "'f::zero aritmetica \<Rightarrow> 'f estoque \<Rightarrow> int option \<Rightarrow> int option \<Rightarrow>
   excecao + 'f linha list" where
  "gerar_relatorio_vendas ar e data_inicio data_fim =
     (let di = (case data_inicio of None \<Rightarrow> datetime_min | Some d \<Rightarrow> d);
          df = (case data_fim of None \<Rightarrow> datetime_max | Some d \<Rightarrow> d);
          vendas_periodo = filter (\<lambda>v. di \<le> data v \<and> data v \<le> df) (vendas e);
          cabecalho =
            [Titulo,
             Periodo (if di \<noteq> datetime_min then Some di else None)
                     (if df \<noteq> datetime_max then Some df else None),
             TotalDeVendas (length vendas_periodo),
             ValorTotal (sum_py ar (map valor_total vendas_periodo)),
             LinhaEmBranco]
      in case linhas_vendas (produtos e) vendas_periodo of
           Inl x \<Rightarrow> Inl x
         | Inr r \<Rightarrow> Inr (cabecalho @ r))"

subsection \<open>Sequences of calls\<close>

text \<open>
  A caller of the ledger makes one public call after another. \<open>operacao\<close> names the
  four calls that change the ledger, with their arguments. \<open>aplicar\<close> is the ledger
  as a call leaves it, whether the call returns or raises: a sale that raises leaves
  the ledger with the assignments made before the exception, and a caller that catches
  the exception goes on from that ledger. \<open>executar\<close> makes the calls of a list in
  order, from a given ledger.
\<close>

datatype 'f operacao =
    Adicionar string string string int 'f int
  | Atualizar int "string option" "string option" "string option"
      "int option" "'f option" "int option"
  | Remover int
  | Vender "(int \<times> int) list" int

fun aplicar :: "'f::zero aritmetica \<Rightarrow> 'f estoque \<Rightarrow> 'f operacao \<Rightarrow> 'f estoque" where
  "aplicar ar e (Adicionar n t c q pr lm) = snd (adicionar_produto e n t c q pr lm)"
| "aplicar ar e (Atualizar i n t c q pr lm) = snd (atualizar_produto e i n t c q pr lm)"
| "aplicar ar e (Remover i) = snd (remover_produto e i)"
| "aplicar ar e (Vender itens agora) = fst (snd (registrar_venda ar e itens agora))"

fun executar :: "'f::zero aritmetica \<Rightarrow> 'f estoque \<Rightarrow> 'f operacao list \<Rightarrow> 'f estoque" where
  "executar ar e [] = e"
| "executar ar e (x # xs) = executar ar (aplicar ar e x) xs"

text \<open>
  The calls whose quantities are not negative: the initial quantity of an added
  product, the quantity supplied to an update, and the requested quantity of every
  item of a sale (the items of a sale are a dict, so their keys are distinct).
\<close>

fun permitida :: "'f operacao \<Rightarrow> bool" where
  "permitida (Adicionar n t c q pr lm) = (0 \<le> q)"
| "permitida (Atualizar i n t c q pr lm) = (case q of Some x \<Rightarrow> 0 \<le> x | None \<Rightarrow> True)"
| "permitida (Remover i) = True"
| "permitida (Vender itens agora) =
     (distinct (map fst itens) \<and> list_all (\<lambda>x. 0 \<le> snd x) itens)"


subsection \<open>Amount of a line item\<close>


subsection \<open>Ledgers of the examples\<close>

text \<open>
  The examples are evaluated with the arithmetic that does not round. Their prices
  are floats (halves of integers), and so are the products and the sums they need;
  a float operation whose exact result is a float returns it, so this arithmetic gives
  in the examples what the interpreter gives.
\<close>

definition aritmetica_exata :: "rat aritmetica" where
  "aritmetica_exata = \<lparr>multiplicar = (\<lambda>p q. p * of_int q), somar = sum_list\<rparr>"


text \<open>The sale of 3 units of that product at time 0, and the ledger after it.\<close>

definition venda_A :: "rat venda" where
  "venda_A = \<lparr>venda_id = 1, produtos_venda = [(1, 3)], data = 0, valor_total = 297 / 2\<rparr>"

definition loja_A_vendida :: "rat estoque" where
  "loja_A_vendida =
     \<lparr>produtos = [(1, \<lparr>produto_id = 1, nome = ''Camiseta'', tamanho = ''M'', cor = ''Preta'',
                       quantidade = 7, preco = 99 / 2, limite_minimo = 5\<rparr>)],
      vendas = [venda_A], ultimo_id_produto = 1, ultimo_id_venda = 1\<rparr>"

text \<open>The ledger after that sale, once the product sold has been removed.\<close>

definition loja_A_removida :: "rat estoque" where
  "loja_A_removida = snd (remover_produto loja_A_vendida 1)"

text \<open>
  A sequence of calls from the empty ledger: a product of quantity 5 is added and all
  5 units are sold at time 0; \<open>loja_esgotada\<close> is the ledger it ends in.
\<close>

definition chamadas_esgotar :: "rat operacao list" where
  "chamadas_esgotar =
     [Adicionar ''Camiseta'' ''M'' ''Preta'' 5 (99 / 2) 5, Vender [(1, 5)] 0]"

definition loja_esgotada :: "rat estoque" where
  "loja_esgotada =
     \<lparr>produtos = [(1, \<lparr>produto_id = 1, nome = ''Camiseta'', tamanho = ''M'', cor = ''Preta'',
                       quantidade = 0, preco = 99 / 2, limite_minimo = 5\<rparr>)],
      vendas = [\<lparr>venda_id = 1, produtos_venda = [(1, 5)], data = 0, valor_total = 495 / 2\<rparr>],
      ultimo_id_produto = 1, ultimo_id_venda = 1\<rparr>"

text \<open>Product 1 of quantity 5 and product 2 of quantity 2, both with threshold 5.\<close>

definition loja_AB :: "rat estoque" where
  "loja_AB =
     snd (adicionar_produto
            (snd (adicionar_produto Estoque_init ''Camiseta'' ''M'' ''Preta'' 5 (99 / 2) 5))
            ''Bermuda'' ''M'' ''Azul'' 2 (119 / 2) 5)"

text \<open>Product 1 of quantity 3 and product 2 of quantity 1, both with threshold 5.\<close>

definition loja_CD :: "rat estoque" where
  "loja_CD =
     snd (adicionar_produto
            (snd (adicionar_produto Estoque_init ''Vestido'' ''P'' ''Colorido'' 3 (179 / 2) 5))
            ''Vestido'' ''M'' ''Colorido'' 1 (179 / 2) 5)"

text \<open>
  One product of quantity \<open>2 ^ 1024\<close> and price 0.5, and the ledger that the sale of
  all its units leaves behind when it raises.
\<close>

definition quantidade_imensa :: int where
  "quantidade_imensa = 2 ^ 1024"

definition loja_imensa :: "rat estoque" where
  "loja_imensa =
     snd (adicionar_produto Estoque_init ''Camiseta'' ''M'' ''Preta'' quantidade_imensa (1 / 2) 5)"

definition chamadas_estouro :: "rat operacao list" where
  "chamadas_estouro =
     [Adicionar ''Camiseta'' ''M'' ''Preta'' quantidade_imensa (1 / 2) 5,
      Vender [(1, quantidade_imensa)] 0]"

definition loja_imensa_depois :: "rat estoque" where
  "loja_imensa_depois =
     \<lparr>produtos = [(1, \<lparr>produto_id = 1, nome = ''Camiseta'', tamanho = ''M'', cor = ''Preta'',
                       quantidade = 0, preco = 1 / 2, limite_minimo = 5\<rparr>)],
      vendas = [], ultimo_id_produto = 1, ultimo_id_venda = 1\<rparr>"

section \<open>Low-stock check\<close>

text \<open>
  C5. The low-stock check of a product is true exactly when its quantity is strictly
  below its threshold, whatever its other fields are: a product whose quantity equals
  the threshold is not low, and one whose quantity is the threshold minus one is low.
\<close>

theorem verificar_estoque_baixo_estrito:
  "(verificar_estoque_baixo p = (quantidade p < limite_minimo p)) \<and>
   \<not> verificar_estoque_baixo (p\<lparr>quantidade := limite_minimo p\<rparr>) \<and>
   verificar_estoque_baixo (p\<lparr>quantidade := limite_minimo p - 1\<rparr>) \<and>
   verificar_estoque_baixo (p\<lparr>produto_id := i, nome := n, tamanho := t, cor := c, preco := pr\<rparr>)
     = verificar_estoque_baixo p"
  by (simp add: verificar_estoque_baixo_def)

theorem verificar_estoque_baixo_estrito_witness:
  "verificar_estoque_baixo (snd (hd (produtos loja_AB))\<lparr>quantidade := 4\<rparr>) \<and>
   \<not> verificar_estoque_baixo (snd (hd (produtos loja_AB)))"
  using verificar_estoque_baixo_estrito [of "snd (hd (produtos loja_AB))"]
  by (simp add: loja_AB_def adicionar_produto_def Estoque_init_def Let_def)

section \<open>Settling a sale: the validation loop\<close>

lemma verificar_None_iff:
  "verificar ps xs = None \<longleftrightarrow>
     (\<forall>i q. (i, q) \<in> set xs \<longrightarrow> (\<exists>p. map_of ps i = Some p \<and> q \<le> quantidade p))"
  by (induction ps xs rule: verificar.induct) (auto split: option.splits)


lemma verificar_falha:
  assumes "(i, q) \<in> set itens"
    and "case map_of ps i of None \<Rightarrow> True | Some p \<Rightarrow> quantidade p < q"
  shows "\<exists>m. verificar ps itens = Some m"
proof -
  have "verificar ps itens \<noteq> None"
    using assms unfolding verificar_None_iff by (cases "map_of ps i") force+
  then show ?thesis by auto
qed

lemma loja_AB_produtos:
  "produtos loja_AB =
     [(1, \<lparr>produto_id = 1, nome = ''Camiseta'', tamanho = ''M'', cor = ''Preta'',
           quantidade = 5, preco = 99 / 2, limite_minimo = 5\<rparr>),
      (2, \<lparr>produto_id = 2, nome = ''Bermuda'', tamanho = ''M'', cor = ''Azul'',
           quantidade = 2, preco = 119 / 2, limite_minimo = 5\<rparr>)]"
  by (simp add: loja_AB_def adicionar_produto_def Estoque_init_def Let_def)

text \<open>
  C1. A sale fails as a whole: when one of the requested items names an identifier
  that is not a product, or asks for more than the product's quantity, the call returns
  no sale and the ledger after the call is the ledger before it (products, sales and
  both counters).
\<close>

theorem registrar_venda_atomica:
  assumes "(i, q) \<in> set itens"
    and "case map_of (produtos e) i of None \<Rightarrow> True | Some p \<Rightarrow> quantidade p < q"
  shows "\<exists>m. registrar_venda ar e itens agora = (Inr None, e, [m])"
proof -
  obtain m where "verificar (produtos e) itens = Some m"
    using verificar_falha [OF assms] by auto
  then show ?thesis by (simp add: registrar_venda_def)
qed

theorem registrar_venda_atomica_witness:
  "(2, 5) \<in> set [(1, 3), (2, 5 :: int)] \<and>
   (case map_of (produtos loja_AB) 2 of None \<Rightarrow> True | Some p \<Rightarrow> quantidade p < 5) \<and>
   map_option quantidade (map_of (produtos loja_AB) 1) = Some 5 \<and>
   (\<exists>m. registrar_venda aritmetica_exata loja_AB [(1, 3), (2, 5)] 0 = (Inr None, loja_AB, [m]))"
proof -
  have h1: "(2, 5) \<in> set [(1, 3), (2, 5 :: int)]" by simp
  have h2: "case map_of (produtos loja_AB) 2 of None \<Rightarrow> True | Some p \<Rightarrow> quantidade p < 5"
    by (simp add: loja_AB_produtos)
  have h3: "map_option quantidade (map_of (produtos loja_AB) 1) = Some 5"
    by (simp add: loja_AB_produtos)
  from registrar_venda_atomica [OF h1 h2, where ar = aritmetica_exata and agora = 0] h1 h2 h3
  show ?thesis by blast
qed




text \<open>
  C10. A sale with no items always succeeds: the sale returned has the next sale
  identifier, no items and total 0, it is appended to the sales, the sale counter goes
  up by one, nothing is printed, and the products and the product counter are as before.
\<close>

theorem registrar_venda_vazia:
  "registrar_venda ar e [] agora =
     (Inr (Some \<lparr>venda_id = ultimo_id_venda e + 1, produtos_venda = [],
                 data = agora, valor_total = 0\<rparr>),
      e\<lparr>ultimo_id_venda := ultimo_id_venda e + 1,
        vendas := vendas e @ [\<lparr>venda_id = ultimo_id_venda e + 1, produtos_venda = [],
                               data = agora, valor_total = 0\<rparr>]\<rparr>,
      [])"
  by (simp add: registrar_venda_def calcular_valor_total_def Venda_init_def sum_py_def Let_def)

theorem registrar_venda_vazia_witness:
  "\<exists>v e'. registrar_venda aritmetica_exata loja_AB [] 0 = (Inr (Some v), e', []) \<and>
      valor_total v = 0 \<and> produtos_venda v = [] \<and> venda_id v = 1 \<and>
      vendas e' = [v] \<and> ultimo_id_venda e' = 1 \<and> produtos e' = produtos loja_AB"
  using registrar_venda_vazia [of aritmetica_exata loja_AB 0]
  by (simp add: loja_AB_def adicionar_produto_def Estoque_init_def Let_def)

section \<open>Settling a sale: the commit loop and the total\<close>

lemma map_fst_update_known:
  "map_of al k = Some v \<Longrightarrow> map fst (AList.update k v' al) = map fst al"
  by (induction al) (auto split: if_splits)


lemma set_update_subset: "set (AList.update k v al) \<subseteq> insert (k, v) (set al)"
  by (induction al) auto







text \<open>
  Whatever way a sale that passed the first loop ends, the product map it leaves is
  the one the second loop left.
\<close>

lemma registrar_venda_produtos:
  assumes "verificar (produtos e) itens = None"
    and "baixar (produtos e) itens = (r, ps', out)"
  shows "produtos (fst (snd (registrar_venda ar e itens agora))) = ps'"
  using assms
  by (cases r)
     (simp_all add: registrar_venda_def Let_def split: sum.splits)



lemma limite_float_grande: "1000 < limite_float"
proof -
  have "(2::int) ^ 970 + 2 ^ 970 \<le> 2 ^ 1024"
    using power_increasing [of 971 1024 "2::int"] by simp
  moreover have "(1000::int) < 2 ^ 10" by simp
  moreover have "(2::int) ^ 10 \<le> 2 ^ 970" by (rule power_increasing) simp_all
  ultimately show ?thesis unfolding limite_float_def by linarith
qed



lemma loja_imensa_eq:
  "loja_imensa =
     \<lparr>produtos = [(1, \<lparr>produto_id = 1, nome = ''Camiseta'', tamanho = ''M'', cor = ''Preta'',
                       quantidade = quantidade_imensa, preco = 1 / 2, limite_minimo = 5\<rparr>)],
      vendas = [], ultimo_id_produto = 1, ultimo_id_venda = 0\<rparr>"
  by (simp add: loja_imensa_def adicionar_produto_def Estoque_init_def Let_def)

lemma vezes_estouro: "vezes ar p quantidade_imensa = Inl OverflowError"
proof -
  have "limite_float \<le> \<bar>quantidade_imensa\<bar>"
    by (simp add: limite_float_def quantidade_imensa_def)
  then show ?thesis by (simp only: vezes_def if_True)
qed

lemma registrar_venda_loja_imensa:
  "registrar_venda aritmetica_exata loja_imensa [(1, quantidade_imensa)] 0 =
     (Inl OverflowError, loja_imensa_depois, [AlertaEstoqueBaixo ''Camiseta'' 0])"
  by (simp add: registrar_venda_def loja_imensa_eq loja_imensa_depois_def getitem_def
      atualizar_quantidade_def verificar_estoque_baixo_def calcular_valor_total_def
      Venda_init_def vezes_estouro)


section \<open>Updating a product\<close>

text \<open>
  C9. An update of an identifier that is not a product returns \<open>None\<close> and leaves the
  ledger as it was. An update of a product returns the product with exactly the
  supplied fields changed: a name, size or colour that is \<open>None\<close> or empty keeps the
  old value; a quantity, price or threshold that is not \<open>None\<close> is stored, zero too.
  The identifier of the product, every other product, the order of the product map,
  the sales and both counters are unchanged.
\<close>

theorem atualizar_produto_parcial:
  "(map_of (produtos e) i = None \<longrightarrow> atualizar_produto e i n t c q pr lm = (None, e)) \<and>
   (\<forall>p. map_of (produtos e) i = Some p \<longrightarrow>
      (\<exists>p' e'. atualizar_produto e i n t c q pr lm = (Some p', e') \<and>
         nome p' = (case n of Some s \<Rightarrow> if s \<noteq> [] then s else nome p | None \<Rightarrow> nome p) \<and>
         tamanho p' = (case t of Some s \<Rightarrow> if s \<noteq> [] then s else tamanho p | None \<Rightarrow> tamanho p) \<and>
         cor p' = (case c of Some s \<Rightarrow> if s \<noteq> [] then s else cor p | None \<Rightarrow> cor p) \<and>
         quantidade p' = (case q of Some x \<Rightarrow> x | None \<Rightarrow> quantidade p) \<and>
         preco p' = (case pr of Some x \<Rightarrow> x | None \<Rightarrow> preco p) \<and>
         limite_minimo p' = (case lm of Some x \<Rightarrow> x | None \<Rightarrow> limite_minimo p) \<and>
         produto_id p' = produto_id p \<and>
         map_of (produtos e') = (map_of (produtos e))(i \<mapsto> p') \<and>
         map fst (produtos e') = map fst (produtos e) \<and>
         vendas e' = vendas e \<and>
         ultimo_id_produto e' = ultimo_id_produto e \<and>
         ultimo_id_venda e' = ultimo_id_venda e))"
  by (auto simp: atualizar_produto_def Let_def update_conv' map_fst_update_known split: option.splits)

theorem atualizar_produto_parcial_witness:
  "map_of (produtos loja_AB) 7 = None \<and>
   atualizar_produto loja_AB 7 (Some ''Saia'') None None (Some 0) None None = (None, loja_AB) \<and>
   (\<exists>p. map_of (produtos loja_AB) 2 = Some p \<and> nome p = ''Bermuda'' \<and> limite_minimo p = 5 \<and>
      (\<exists>p' e'. atualizar_produto loja_AB 2 (Some []) None None (Some 0) None None = (Some p', e') \<and>
         nome p' = ''Bermuda'' \<and> quantidade p' = 0 \<and> limite_minimo p' = 5 \<and>
         map_of (produtos e') 1 = map_of (produtos loja_AB) 1 \<and> vendas e' = vendas loja_AB))"
proof -
  have h1: "map_of (produtos loja_AB) 7 = None" by (simp add: loja_AB_produtos)
  obtain p where h2: "map_of (produtos loja_AB) 2 = Some p" and
    h3: "nome p = ''Bermuda''" and h4: "limite_minimo p = 5"
    by (simp add: loja_AB_produtos)
  have a: "atualizar_produto loja_AB 7 (Some ''Saia'') None None (Some 0) None None = (None, loja_AB)"
    using atualizar_produto_parcial [of loja_AB 7 "Some ''Saia''" None None "Some 0" None None] h1
    by blast
  obtain p' e' where
    r: "atualizar_produto loja_AB 2 (Some []) None None (Some 0) None None = (Some p', e')" and
    f1: "nome p' = (case Some [] of Some s \<Rightarrow> if s \<noteq> [] then s else nome p | None \<Rightarrow> nome p)" and
    f2: "quantidade p' = (case Some 0 of Some x \<Rightarrow> x | None \<Rightarrow> quantidade p)" and
    f3: "limite_minimo p' = (case None of Some x \<Rightarrow> x | None \<Rightarrow> limite_minimo p)" and
    f4: "map_of (produtos e') = (map_of (produtos loja_AB))(2 \<mapsto> p')" and
    f5: "vendas e' = vendas loja_AB"
    using atualizar_produto_parcial [of loja_AB 2 "Some []" None None "Some 0" None None] h2
    by blast
  have "nome p' = ''Bermuda''" using f1 h3 by simp
  moreover have "quantidade p' = 0" using f2 by simp
  moreover have "limite_minimo p' = 5" using f3 h4 by simp
  moreover have "map_of (produtos e') 1 = map_of (produtos loja_AB) 1" using f4 by simp
  ultimately show ?thesis using h1 h2 h3 h4 a r f5 by blast
qed






section \<open>Quantities are never negative\<close>

lemma baixar_nao_negativo:
  assumes "\<forall>x \<in> set ps. 0 \<le> quantidade (snd x)"
    and "distinct (map fst xs)"
    and "\<forall>i q. (i, q) \<in> set xs \<longrightarrow> (\<exists>p. map_of ps i = Some p \<and> q \<le> quantidade p)"
    and "baixar ps xs = (r, ps', out)"
  shows "\<forall>x \<in> set ps'. 0 \<le> quantidade (snd x)"
  using assms
proof (induction xs arbitrary: ps out)
  case Nil
  then show ?case by simp
next
  case (Cons x xs)
  obtain i q where x: "x = (i, q)" by (cases x)
  from Cons.prems(3) x obtain p where p: "map_of ps i = Some p" and q: "q \<le> quantidade p"
    by auto
  define p' where "p' = atualizar_quantidade p (- q)"
  define ps1 where "ps1 = AList.update i p' ps"
  have p'0: "0 \<le> quantidade p'" using q by (simp add: p'_def atualizar_quantidade_def)
  have inv1: "\<forall>y \<in> set ps1. 0 \<le> quantidade (snd y)"
    using set_update_subset [of i p' ps] Cons.prems(1) p'0 unfolding ps1_def by auto
  have dist: "distinct (map fst xs)" and notin: "i \<notin> fst ` set xs"
    using Cons.prems(2) x by simp_all
  have val1: "\<forall>j r. (j, r) \<in> set xs \<longrightarrow> (\<exists>p. map_of ps1 j = Some p \<and> r \<le> quantidade p)"
  proof (intro allI impI)
    fix j r assume jr: "(j, r) \<in> set xs"
    then have "j \<noteq> i" using notin by force
    then have "map_of ps1 j = map_of ps j" by (simp add: ps1_def update_conv')
    then show "\<exists>p. map_of ps1 j = Some p \<and> r \<le> quantidade p"
      using Cons.prems(3) jr by simp
  qed
  obtain out1 where "baixar ps1 xs = (r, ps', out1)"
    using Cons.prems(4) p
    by (auto simp: x getitem_def Let_def p'_def ps1_def split: prod.splits)
  from Cons.IH [OF inv1 dist val1 this] show ?case .
qed

lemma aplicar_nao_negativo:
  assumes "permitida x" and "\<forall>y \<in> set (produtos e). 0 \<le> quantidade (snd y)"
  shows "\<forall>y \<in> set (produtos (aplicar ar e x)). 0 \<le> quantidade (snd y)"
proof (cases x)
  case (Adicionar n t c q pr lm)
  then have "0 \<le> q" using assms(1) by simp
  then show ?thesis
    using assms(2) set_update_subset [of "ultimo_id_produto e + 1" _ "produtos e"]
    by (fastforce simp: Adicionar adicionar_produto_def Let_def)
next
  case (Atualizar i n t c q pr lm)
  show ?thesis
  proof (cases "map_of (produtos e) i")
    case None
    then show ?thesis using assms(2) by (simp add: Atualizar atualizar_produto_def)
  next
    case (Some p0)
    then have "(i, p0) \<in> set (produtos e)" by (rule map_of_SomeD)
    then have p0: "0 \<le> quantidade p0" using assms(2) by force
    have q: "case q of Some x \<Rightarrow> 0 \<le> x | None \<Rightarrow> True" using assms(1) Atualizar by simp
    obtain p6 where r: "atualizar_produto e i n t c q pr lm =
        (Some p6, e\<lparr>produtos := AList.update i p6 (produtos e)\<rparr>)"
      and q6: "quantidade p6 = (case q of Some x \<Rightarrow> x | None \<Rightarrow> quantidade p0)"
      using Some by (auto simp: atualizar_produto_def Let_def split: option.splits)
    have "0 \<le> quantidade p6" using q6 q p0 by (cases q) simp_all
    then show ?thesis
      using assms(2) set_update_subset [of i p6 "produtos e"]
      by (fastforce simp: Atualizar r)
  qed
next
  case (Remover i)
  then show ?thesis
    using assms(2) by (auto simp: remover_produto_def AList.delete_eq)
next
  case (Vender itens agora)
  show ?thesis
  proof (cases "verificar (produtos e) itens")
    case (Some m)
    then show ?thesis using assms(2) by (simp add: Vender registrar_venda_def)
  next
    case None
    have d: "distinct (map fst itens)" using assms(1) Vender by simp
    obtain r ps' out where b: "baixar (produtos e) itens = (r, ps', out)"
      by (cases "baixar (produtos e) itens") auto
    have val: "\<forall>i q. (i, q) \<in> set itens \<longrightarrow>
        (\<exists>p. map_of (produtos e) i = Some p \<and> q \<le> quantidade p)"
      using None unfolding verificar_None_iff .
    have "produtos (aplicar ar e x) = ps'"
      unfolding Vender aplicar.simps using None b by (rule registrar_venda_produtos)
    with baixar_nao_negativo [OF assms(2) d val b] show ?thesis by simp
  qed
qed

lemma executar_nao_negativo:
  "list_all permitida ops \<Longrightarrow> \<forall>y \<in> set (produtos e). 0 \<le> quantidade (snd y) \<Longrightarrow>
   \<forall>y \<in> set (produtos (executar ar e ops)). 0 \<le> quantidade (snd y)"
proof (induction ops arbitrary: e)
  case Nil
  then show ?case by simp
next
  case (Cons x ops)
  from Cons.prems have px: "permitida x" and pops: "list_all permitida ops" by simp_all
  note i1 = aplicar_nao_negativo [OF px Cons.prems(2), of ar]
  from Cons.IH [OF pops i1] show ?case by simp
qed

text \<open>
  C4. Starting from the empty ledger, any sequence of calls that add a product with
  a quantity that is not negative, update a product with no quantity or with one that
  is not negative, remove a product, or settle a sale whose requested quantities are
  not negative, ends in a ledger where no product has a negative quantity. This holds
  whether the sales of the sequence return a sale, return \<open>None\<close> or raise, since
  \<open>executar\<close> goes on from the ledger that each call leaves; and every prefix of such
  a sequence is such a sequence, so it holds in every ledger on the way too.
\<close>

theorem quantidade_nunca_negativa:
  assumes "list_all permitida ops"
  shows "\<forall>p \<in> set (listar_produtos (executar ar Estoque_init ops)). 0 \<le> quantidade p"
proof -
  have "\<forall>y \<in> set (produtos (Estoque_init :: 'a estoque)). 0 \<le> quantidade (snd y)"
    by (simp add: Estoque_init_def)
  from executar_nao_negativo [OF assms this, of ar] show ?thesis
    by (auto simp: listar_produtos_def)
qed

lemma executar_chamadas_esgotar:
  "executar aritmetica_exata Estoque_init chamadas_esgotar = loja_esgotada"
proof -
  have "vezes aritmetica_exata (99 / 2) 5 = Inr (495 / 2)"
    using limite_float_grande by (simp add: vezes_def aritmetica_exata_def)
  then show ?thesis
    by (simp add: chamadas_esgotar_def loja_esgotada_def Estoque_init_def adicionar_produto_def
      registrar_venda_def getitem_def atualizar_quantidade_def verificar_estoque_baixo_def
      calcular_valor_total_def Venda_init_def sum_py_def aritmetica_exata_def Let_def)
qed

lemma executar_chamadas_estouro:
  "executar aritmetica_exata Estoque_init chamadas_estouro = loja_imensa_depois"
  using registrar_venda_loja_imensa
  by (simp add: chamadas_estouro_def loja_imensa_def)

theorem quantidade_nunca_negativa_witness:
  "list_all permitida chamadas_esgotar \<and>
   list_all (\<lambda>p. 0 \<le> quantidade p)
     (listar_produtos (executar aritmetica_exata Estoque_init chamadas_esgotar)) \<and>
   executar aritmetica_exata Estoque_init chamadas_esgotar = loja_esgotada \<and>
   map quantidade (listar_produtos loja_esgotada) = [0] \<and>
   list_all permitida chamadas_estouro \<and>
   list_all (\<lambda>p. 0 \<le> quantidade p)
     (listar_produtos (executar aritmetica_exata Estoque_init chamadas_estouro)) \<and>
   executar aritmetica_exata Estoque_init chamadas_estouro = loja_imensa_depois \<and>
   map quantidade (listar_produtos loja_imensa_depois) = [0]"
proof -
  have h: "list_all permitida chamadas_esgotar"
    by (simp add: chamadas_esgotar_def)
  from quantidade_nunca_negativa [OF h, of aritmetica_exata]
  have q: "list_all (\<lambda>p. 0 \<le> quantidade p)
     (listar_produtos (executar aritmetica_exata Estoque_init chamadas_esgotar))"
    by (simp add: list_all_iff)
  have m: "map quantidade (listar_produtos loja_esgotada) = [0]"
    by (simp add: listar_produtos_def loja_esgotada_def)
  have h': "list_all permitida chamadas_estouro"
    by (simp add: chamadas_estouro_def quantidade_imensa_def)
  from quantidade_nunca_negativa [OF h', of aritmetica_exata]
  have q': "list_all (\<lambda>p. 0 \<le> quantidade p)
     (listar_produtos (executar aritmetica_exata Estoque_init chamadas_estouro))"
    by (simp add: list_all_iff)
  have m': "map quantidade (listar_produtos loja_imensa_depois) = [0]"
    by (simp add: listar_produtos_def loja_imensa_depois_def)
  from h q executar_chamadas_esgotar m h' q' executar_chamadas_estouro m'
  show ?thesis by (intro conjI)
qed

section \<open>Low-stock report\<close>

lemma loja_CD_produtos:
  "produtos loja_CD =
     [(1, \<lparr>produto_id = 1, nome = ''Vestido'', tamanho = ''P'', cor = ''Colorido'',
           quantidade = 3, preco = 179 / 2, limite_minimo = 5\<rparr>),
      (2, \<lparr>produto_id = 2, nome = ''Vestido'', tamanho = ''M'', cor = ''Colorido'',
           quantidade = 1, preco = 179 / 2, limite_minimo = 5\<rparr>)]"
  by (simp add: loja_CD_def adicionar_produto_def Estoque_init_def Let_def)

text \<open>
  C6 as the code has it. The ledger's low-stock list holds exactly the products whose
  quantity is strictly below their threshold, in the order of the product map; it is
  the interactive listing that sorts this list by ascending quantity before printing
  it, and it prints the same products.
\<close>

theorem listar_produtos_estoque_baixo_ordem:
  "set (listar_produtos_estoque_baixo (e :: 'f estoque)) =
     {p \<in> set (listar_produtos e). verificar_estoque_baixo p} \<and>
   listar_produtos_estoque_baixo e =
     filter (\<lambda>p. quantidade p < limite_minimo p) (listar_produtos e) \<and>
   sorted (map quantidade (interface_listar_produtos_estoque_baixo e)) \<and>
   mset (interface_listar_produtos_estoque_baixo e) = mset (listar_produtos_estoque_baixo e)"
proof -
  have f: "filter verificar_estoque_baixo xs = filter (\<lambda>p. quantidade p < limite_minimo p) xs"
    for xs :: "'f produto list"
    by (rule filter_cong) (simp_all add: verificar_estoque_baixo_def)
  show ?thesis
    by (simp add: listar_produtos_estoque_baixo_def listar_produtos_def
        interface_listar_produtos_estoque_baixo_def f verificar_estoque_baixo_def)
qed

theorem listar_produtos_estoque_baixo_ordem_witness:
  "map quantidade (listar_produtos loja_CD) = [3, 1] \<and>
   map quantidade (listar_produtos_estoque_baixo loja_CD) = [3, 1] \<and>
   map quantidade (interface_listar_produtos_estoque_baixo loja_CD) = [1, 3] \<and>
   set (listar_produtos_estoque_baixo loja_CD) =
     {p \<in> set (listar_produtos loja_CD). verificar_estoque_baixo p} \<and>
   sorted (map quantidade (interface_listar_produtos_estoque_baixo loja_CD)) \<and>
   mset (interface_listar_produtos_estoque_baixo loja_CD) =
     mset (listar_produtos_estoque_baixo loja_CD)"
proof -
  have a: "map quantidade (listar_produtos loja_CD) = [3, 1]"
    by (simp add: listar_produtos_def loja_CD_produtos)
  have b: "map quantidade (listar_produtos_estoque_baixo loja_CD) = [3, 1]"
    by (simp add: listar_produtos_estoque_baixo_def loja_CD_produtos verificar_estoque_baixo_def)
  have c: "map quantidade (interface_listar_produtos_estoque_baixo loja_CD) = [1, 3]"
    by (simp add: listar_produtos_estoque_baixo_def interface_listar_produtos_estoque_baixo_def
        loja_CD_produtos verificar_estoque_baixo_def)
  note t = listar_produtos_estoque_baixo_ordem [of loja_CD]
  from t have d: "set (listar_produtos_estoque_baixo loja_CD) =
     {p \<in> set (listar_produtos loja_CD). verificar_estoque_baixo p}" by (rule conjunct1)
  from t have f: "sorted (map quantidade (interface_listar_produtos_estoque_baixo loja_CD))"
    by (elim conjE)
  from t have g: "mset (interface_listar_produtos_estoque_baixo loja_CD) =
     mset (listar_produtos_estoque_baixo loja_CD)"
    by (elim conjE)
  from a b c d f g show ?thesis by (intro conjI)
qed

text \<open>
  C6 as the specification states it fails: with a product of quantity 3 added before
  a product of quantity 1, both below the threshold 5, the ledger's low-stock list has
  the quantities 3, 1, which is not ascending.
\<close>

theorem listar_produtos_estoque_baixo_nao_ordenada:
  "map quantidade (listar_produtos_estoque_baixo loja_CD) = [3, 1] \<and>
   \<not> sorted (map quantidade (listar_produtos_estoque_baixo loja_CD)) \<and>
   map quantidade (interface_listar_produtos_estoque_baixo loja_CD) = [1, 3]"
  by (simp add: listar_produtos_estoque_baixo_def interface_listar_produtos_estoque_baixo_def
      loja_CD_produtos verificar_estoque_baixo_def)

section \<open>Sales report with removed products\<close>

lemma linhas_itens_ok:
  "linhas_itens ps xs =
     Inr (map (\<lambda>(j, r). case map_of ps j of
                 None \<Rightarrow> ItemNaoEncontrado r j
               | Some p \<Rightarrow> ItemVendido r (nome p) (tamanho p) (cor p) (preco p)) xs)"
  by (induction ps xs rule: linhas_itens.induct)
     (auto simp: contem_def getitem_def split: option.splits)

lemma linhas_vendas_ok:
  "\<exists>r. linhas_vendas ps vs = Inr r \<and>
     (\<forall>v \<in> set vs. \<exists>pre pos. r =
        pre @ [CabecalhoVenda (venda_id v) (data v) (valor_total v), ProdutosVendidos]
            @ map (\<lambda>(j, r). case map_of ps j of
                 None \<Rightarrow> ItemNaoEncontrado r j
               | Some p \<Rightarrow> ItemVendido r (nome p) (tamanho p) (cor p) (preco p))
                (produtos_venda v)
            @ [LinhaEmBranco] @ pos)"
proof (induction vs)
  case Nil
  then show ?case by simp
next
  case (Cons w ws)
  let ?f = "\<lambda>v. [CabecalhoVenda (venda_id v) (data v) (valor_total v), ProdutosVendidos]
            @ map (\<lambda>(j, r). case map_of ps j of
                 None \<Rightarrow> ItemNaoEncontrado r j
               | Some p \<Rightarrow> ItemVendido r (nome p) (tamanho p) (cor p) (preco p))
                (produtos_venda v)
            @ [LinhaEmBranco]"
  from Cons.IH obtain r where r: "linhas_vendas ps ws = Inr r" and
    b: "\<forall>v \<in> set ws. \<exists>pre pos. r = pre @ ?f v @ pos"
    by auto
  have e: "linhas_vendas ps (w # ws) = Inr (?f w @ r)"
    using r by (simp add: linhas_itens_ok)
  have "\<exists>pre pos. ?f w @ r = pre @ ?f v @ pos" if "v \<in> set (w # ws)" for v
  proof (cases "v = w")
    case True
    have "?f w @ r = [] @ ?f w @ r" by simp
    then show ?thesis unfolding True by blast
  next
    case False
    then have "v \<in> set ws" using that by simp
    then obtain pre pos where "r = pre @ ?f v @ pos" using b by blast
    then have "?f w @ r = (?f w @ pre) @ ?f v @ pos" by simp
    then show ?thesis by blast
  qed
  then show ?case using e by auto
qed


lemma gerar_relatorio_vendas_nunca_levanta:
  "\<exists>r. gerar_relatorio_vendas ar e data_inicio data_fim = Inr r"
proof -
  obtain r where
    "linhas_vendas (produtos e)
       (filter (\<lambda>v. (case data_inicio of None \<Rightarrow> datetime_min | Some d \<Rightarrow> d) \<le> data v \<and>
                    data v \<le> (case data_fim of None \<Rightarrow> datetime_max | Some d \<Rightarrow> d))
          (vendas e)) = Inr r"
    using linhas_vendas_ok by blast
  then show ?thesis by (simp add: gerar_relatorio_vendas_def Let_def)
qed

text \<open>
  C7. When a sale of the ledger lies within the bounds of the report and one of its
  items names an identifier that is no longer a product, the sales report is produced
  without an exception; it holds the block of that sale (its header, one line for each
  of its items in order, a blank line), and the line of that item is the
  not-found line, with the quantity and the identifier, in place of the product's
  details.
\<close>

theorem relatorio_tolera_produto_removido:
  assumes "v \<in> set (vendas e)"
    and "(case data_inicio of None \<Rightarrow> datetime_min | Some d \<Rightarrow> d) \<le> data v"
    and "data v \<le> (case data_fim of None \<Rightarrow> datetime_max | Some d \<Rightarrow> d)"
    and "(i, q) \<in> set (produtos_venda v)"
    and "map_of (produtos e) i = None"
  shows "\<exists>r pre ls pos. gerar_relatorio_vendas ar e data_inicio data_fim = Inr r \<and>
           r = pre @ [CabecalhoVenda (venda_id v) (data v) (valor_total v), ProdutosVendidos]
                 @ ls @ [LinhaEmBranco] @ pos \<and>
           ls = map (\<lambda>(j, r). case map_of (produtos e) j of
                        None \<Rightarrow> ItemNaoEncontrado r j
                      | Some p \<Rightarrow> ItemVendido r (nome p) (tamanho p) (cor p) (preco p))
                  (produtos_venda v) \<and>
           ItemNaoEncontrado q i \<in> set ls"
proof -
  let ?di = "case data_inicio of None \<Rightarrow> datetime_min | Some d \<Rightarrow> d"
  let ?df = "case data_fim of None \<Rightarrow> datetime_max | Some d \<Rightarrow> d"
  let ?vs = "filter (\<lambda>v. ?di \<le> data v \<and> data v \<le> ?df) (vendas e)"
  let ?g = "\<lambda>(j, r). case map_of (produtos e) j of
                        None \<Rightarrow> ItemNaoEncontrado r j
                      | Some p \<Rightarrow> ItemVendido r (nome p) (tamanho p) (cor p) (preco p)"
  let ?cab = "[Titulo,
             Periodo (if ?di \<noteq> datetime_min then Some ?di else None)
                     (if ?df \<noteq> datetime_max then Some ?df else None),
             TotalDeVendas (length ?vs),
             ValorTotal (sum_py ar (map valor_total ?vs)),
             LinhaEmBranco]"
  have v: "v \<in> set ?vs" using assms(1-3) by simp
  from linhas_vendas_ok [of "produtos e" ?vs] obtain r where
    r: "linhas_vendas (produtos e) ?vs = Inr r" and
    b: "\<forall>v \<in> set ?vs. \<exists>pre pos. r =
        pre @ [CabecalhoVenda (venda_id v) (data v) (valor_total v), ProdutosVendidos]
            @ map ?g (produtos_venda v) @ [LinhaEmBranco] @ pos"
    by blast
  from b v obtain pre pos where
    d: "r = pre @ [CabecalhoVenda (venda_id v) (data v) (valor_total v), ProdutosVendidos]
            @ map ?g (produtos_venda v) @ [LinhaEmBranco] @ pos"
    by blast
  have g: "gerar_relatorio_vendas ar e data_inicio data_fim = Inr (?cab @ r)"
    using r by (simp add: gerar_relatorio_vendas_def Let_def)
  have "?g (i, q) \<in> set (map ?g (produtos_venda v))"
    using assms(4) unfolding set_map by (rule imageI)
  then have m: "ItemNaoEncontrado q i \<in> set (map ?g (produtos_venda v))"
    using assms(5) by simp
  have "?cab @ r = (?cab @ pre) @ [CabecalhoVenda (venda_id v) (data v) (valor_total v), ProdutosVendidos]
            @ map ?g (produtos_venda v) @ [LinhaEmBranco] @ pos"
    unfolding d by simp
  with g m show ?thesis by blast
qed

lemma loja_A_removida_eq:
  "loja_A_removida = \<lparr>produtos = [], vendas = [venda_A], ultimo_id_produto = 1, ultimo_id_venda = 1\<rparr>"
  by (simp add: loja_A_removida_def remover_produto_def contem_def loja_A_vendida_def
      AList.delete_eq)

lemma relatorio_loja_A_removida:
  "gerar_relatorio_vendas aritmetica_exata loja_A_removida None None =
     Inr [Titulo, Periodo None None, TotalDeVendas 1, ValorTotal (297 / 2), LinhaEmBranco,
          CabecalhoVenda 1 0 (297 / 2), ProdutosVendidos, ItemNaoEncontrado 3 1,
          LinhaEmBranco]"
  by (simp add: gerar_relatorio_vendas_def loja_A_removida_eq venda_A_def contem_def
      datetime_min_def datetime_max_def sum_py_def aritmetica_exata_def Let_def)

theorem relatorio_tolera_produto_removido_witness:
  "venda_A \<in> set (vendas loja_A_removida) \<and>
   (case None of None \<Rightarrow> datetime_min | Some d \<Rightarrow> d) \<le> data venda_A \<and>
   data venda_A \<le> (case None of None \<Rightarrow> datetime_max | Some d \<Rightarrow> d) \<and>
   (1, 3) \<in> set (produtos_venda venda_A) \<and>
   map_of (produtos loja_A_removida) 1 = None \<and>
   (\<exists>r pre ls pos. gerar_relatorio_vendas aritmetica_exata loja_A_removida None None = Inr r \<and>
       r = pre @ [CabecalhoVenda (venda_id venda_A) (data venda_A) (valor_total venda_A),
                  ProdutosVendidos] @ ls @ [LinhaEmBranco] @ pos \<and>
       ItemNaoEncontrado 3 1 \<in> set ls) \<and>
   gerar_relatorio_vendas aritmetica_exata loja_A_removida None None =
     Inr [Titulo, Periodo None None, TotalDeVendas 1, ValorTotal (297 / 2), LinhaEmBranco,
          CabecalhoVenda 1 0 (297 / 2), ProdutosVendidos, ItemNaoEncontrado 3 1,
          LinhaEmBranco]"
proof -
  have h1: "venda_A \<in> set (vendas loja_A_removida)" by (simp add: loja_A_removida_eq)
  have h2: "(case None of None \<Rightarrow> datetime_min | Some d \<Rightarrow> d) \<le> data venda_A"
    by (simp add: venda_A_def datetime_min_def)
  have h3: "data venda_A \<le> (case None of None \<Rightarrow> datetime_max | Some d \<Rightarrow> d)"
    by (simp add: venda_A_def datetime_max_def)
  have h4: "(1, 3) \<in> set (produtos_venda venda_A)" by (simp add: venda_A_def)
  have h5: "map_of (produtos loja_A_removida) 1 = None" by (simp add: loja_A_removida_eq)
  from relatorio_tolera_produto_removido [OF h1 h2 h3 h4 h5, of aritmetica_exata]
  have c: "\<exists>r pre ls pos. gerar_relatorio_vendas aritmetica_exata loja_A_removida None None = Inr r \<and>
       r = pre @ [CabecalhoVenda (venda_id venda_A) (data venda_A) (valor_total venda_A),
                  ProdutosVendidos] @ ls @ [LinhaEmBranco] @ pos \<and>
       ItemNaoEncontrado 3 1 \<in> set ls"
    by blast
  note k = relatorio_loja_A_removida
  from h1 h2 h3 h4 h5 c k show ?thesis by (intro conjI)
qed

end
